theory Spec2Isabelle
  imports Complex_Main
begin

section \<open>The data contracts of the grfcourses frontend\<close>

text \<open>
  The repository consists of TypeScript type declarations only: the wire shapes of the
  families, products, orders and routes of a delivery application, the envelopes of the
  list responses, the error shape, the creation payloads and the authentication responses.
  Every object type of the source is a record with the source's field names (a field is
  referred to by its qualified name, \<open>Rota.status\<close>, since many types share field names),
  every union of string literals is a datatype, and an object type written inline in the
  source is a record named after the type and the field that holds it.

  A TypeScript \<open>number\<close> is modelled as a real number: the arithmetic below is exact, the
  rounding of IEEE doubles and the values NaN and Infinity are not part of the model.
  \<open>T | null\<close> is \<open>T option\<close>, with \<open>None\<close> for \<open>null\<close>. A field declared with \<open>?\<close> may be
  missing from the object: its type is \<open>T optional\<close>.
\<close>

type_synonym number = real

datatype 'a optional = Absent | Present 'a

subsection \<open>api.d.ts\<close>

text \<open>
  The literal type \<open>false\<close> of \<open>APIError.success\<close> is the part of \<open>boolean\<close> that holds
  \<open>false\<close> alone.
\<close>

typedef literal_false = "{False}"
  morphisms bool_of_literal_false literal_false_of_bool
  by blast

record 'TData API =
  success :: bool
  detail :: "string option optional"
  code :: "string optional"
  data :: "'TData option"

record APIError =
  success :: literal_false
  detail :: "string optional"
  code :: "string optional"

subsection \<open>courses.d.ts\<close>

record Familia =
  id :: number
  nome :: string
  descricao :: "string option"
  ativo :: bool
  created_at :: string
  total_produtos :: number

record Produto_familia =
  id :: number
  nome :: string
  descricao :: "string option"

record Produto =
  id :: number
  nome :: string
  peso :: number
  volume :: "number option"
  familia :: Produto_familia
  ativo :: bool
  created_at :: string

record ProdutoSimple =
  id :: number
  nome :: string
  peso :: number
  volume :: "number option"
  familia_nome :: string

record ProdutoPedido =
  id :: number
  produto :: ProdutoSimple
  quantidade :: number
  peso_total :: number

record Pedido_usuario =
  id :: number
  name :: string
  email :: string

record Pedido =
  id :: number
  usuario :: "Pedido_usuario option"
  nf :: number
  observacao :: "string option"
  dtpedido :: string
  latitude :: number
  longitude :: number
  created_at :: string
  itens :: "ProdutoPedido list"
  peso_total :: number
  volume_total :: number
  total_itens :: number

record PedidoSimple =
  id :: number
  nf :: number
  dtpedido :: string
  latitude :: number
  longitude :: number
  usuario_nome :: "string option"
  observacao :: "string option"

datatype RotaStatus = PLANEJADA | EM_EXECUCAO | CONCLUIDA

text \<open>The string literal that each member of the union \<open>RotaStatus\<close> is in the source.\<close>

fun RotaStatus_literal :: "RotaStatus \<Rightarrow> string" where
  "RotaStatus_literal PLANEJADA = ''PLANEJADA''"
| "RotaStatus_literal EM_EXECUCAO = ''EM_EXECUCAO''"
| "RotaStatus_literal CONCLUIDA = ''CONCLUIDA''"

record RotaTrajeto =
  id :: number
  latitude :: number
  longitude :: number
  datahora :: string

record RotaPedido =
  id :: number
  pedido :: PedidoSimple
  ordem_entrega :: number
  entregue :: bool
  data_entrega :: "string option"

record Rota =
  id :: number
  data_rota :: string
  capacidade_max :: number
  status :: RotaStatus
  created_at :: string
  updated_at :: string
  pedidos :: "RotaPedido list"
  trajetos :: "RotaTrajeto list"
  peso_total_pedidos :: number
  total_pedidos :: number
  pedidos_entregues :: number
  percentual_entrega :: number

record RotaSimple =
  id :: number
  data_rota :: string
  capacidade_max :: number
  status :: RotaStatus
  total_pedidos :: number
  peso_total :: number

type_synonym APIGetFamiliaResponse = Familia

record APIGetFamiliasResponse =
  results :: "Familia list"
  count :: number
  "next" :: "string option"
  previous :: "string option"

type_synonym APIGetProdutoResponse = Produto

record APIGetProdutosResponse =
  results :: "Produto list"
  count :: number
  "next" :: "string option"
  previous :: "string option"

type_synonym APIGetPedidoResponse = Pedido

record APIGetPedidosResponse =
  results :: "Pedido list"
  count :: number
  "next" :: "string option"
  previous :: "string option"

type_synonym APIGetRotaResponse = Rota

record APIGetRotasResponse =
  results :: "Rota list"
  count :: number
  "next" :: "string option"
  previous :: "string option"

subsection \<open>forms.ts\<close>

record PedidoCreatePayload_itens =
  produto_id :: number
  quantidade :: number

record PedidoCreatePayload =
  usuario_id :: "number option optional"
  nf :: number
  observacao :: "string option optional"
  dtpedido :: string
  latitude :: number
  longitude :: number
  itens :: "PedidoCreatePayload_itens list"

record RotaCreatePayload =
  data_rota :: string
  capacidade_max :: number
  status :: "RotaStatus optional"
  pedidos_ids :: "number list optional"

type_synonym APIPostPedidoResponse = Pedido

type_synonym APIPostRotaResponse = Rota

subsection \<open>The authentication responses\<close>

record User =
  id :: number
  name :: string
  email :: string

record APISignInResponse =
  user :: User
  access_token :: string

record APISignUpResponse =
  user :: User
  access_token :: string

section \<open>Properties of the declared shapes\<close>

subsection \<open>A helper fact\<close>

lemma range_eq_UNIV_I: "(\<And>x. \<exists>r. f r = x) \<Longrightarrow> range f = UNIV"
  by (auto simp: image_iff) metis

subsection \<open>Route status\<close>

text \<open>
  Claim C1. The status of every \<open>Rota\<close>, of every \<open>RotaSimple\<close>, and every \<open>RotaStatus\<close>
  value is one of exactly the three enumerated values \<open>PLANEJADA\<close>, \<open>EM_EXECUCAO\<close>,
  \<open>CONCLUIDA\<close>: the type has these three members and no fourth, and the members are the
  three distinct string literals of the source.
\<close>

theorem rota_status_enumerated:
  "(UNIV :: RotaStatus set) = {PLANEJADA, EM_EXECUCAO, CONCLUIDA}
   \<and> card (UNIV :: RotaStatus set) = 3
   \<and> (\<forall>s. RotaStatus_literal s \<in> {''PLANEJADA'', ''EM_EXECUCAO'', ''CONCLUIDA''})
   \<and> inj RotaStatus_literal
   \<and> (\<forall>r :: Rota. Rota.status r \<in> {PLANEJADA, EM_EXECUCAO, CONCLUIDA})
   \<and> (\<forall>r :: RotaSimple. RotaSimple.status r \<in> {PLANEJADA, EM_EXECUCAO, CONCLUIDA})"
proof -
  have all: "s = PLANEJADA \<or> s = EM_EXECUCAO \<or> s = CONCLUIDA" for s
    by (cases s) simp_all
  have univ: "(UNIV :: RotaStatus set) = {PLANEJADA, EM_EXECUCAO, CONCLUIDA}"
    using all by blast
  have crd: "card (UNIV :: RotaStatus set) = 3"
    unfolding univ by simp
  have lit: "RotaStatus_literal s \<in> {''PLANEJADA'', ''EM_EXECUCAO'', ''CONCLUIDA''}" for s
    by (cases s) simp_all
  have inj: "inj RotaStatus_literal"
  proof (rule injI)
    fix a b assume "RotaStatus_literal a = RotaStatus_literal b"
    then show "a = b" by (cases a; cases b) simp_all
  qed
  from univ crd lit inj all show ?thesis by blast
qed

subsection \<open>List envelopes\<close>

text \<open>
  Claim C4. Each of the four list-response envelopes (families, products, orders, routes)
  carries exactly the four fields \<open>results\<close> (a list of the entity), \<open>count\<close> (a number),
  \<open>next\<close> and \<open>previous\<close> (each a string or null): every value of the type is the record
  of these four fields, whatever the entity.
\<close>

theorem list_envelopes_shape:
  "(\<forall>e :: APIGetFamiliasResponse.
      e = \<lparr>APIGetFamiliasResponse.results = (APIGetFamiliasResponse.results e :: Familia list),
           count = (APIGetFamiliasResponse.count e :: number),
           next = (APIGetFamiliasResponse.next e :: string option),
           previous = (APIGetFamiliasResponse.previous e :: string option)\<rparr>)
   \<and> (\<forall>e :: APIGetProdutosResponse.
      e = \<lparr>APIGetProdutosResponse.results = (APIGetProdutosResponse.results e :: Produto list),
           count = (APIGetProdutosResponse.count e :: number),
           next = (APIGetProdutosResponse.next e :: string option),
           previous = (APIGetProdutosResponse.previous e :: string option)\<rparr>)
   \<and> (\<forall>e :: APIGetPedidosResponse.
      e = \<lparr>APIGetPedidosResponse.results = (APIGetPedidosResponse.results e :: Pedido list),
           count = (APIGetPedidosResponse.count e :: number),
           next = (APIGetPedidosResponse.next e :: string option),
           previous = (APIGetPedidosResponse.previous e :: string option)\<rparr>)
   \<and> (\<forall>e :: APIGetRotasResponse.
      e = \<lparr>APIGetRotasResponse.results = (APIGetRotasResponse.results e :: Rota list),
           count = (APIGetRotasResponse.count e :: number),
           next = (APIGetRotasResponse.next e :: string option),
           previous = (APIGetRotasResponse.previous e :: string option)\<rparr>)"
  by simp

subsection \<open>The error shape\<close>

text \<open>
  Claim C5. The \<open>success\<close> field of every \<open>APIError\<close> is false, and the value is the
  record of \<open>success\<close>, an optional string \<open>detail\<close> and an optional string \<open>code\<close>, with
  no other field; the generic envelope \<open>API\<close>, by contrast, has values whose \<open>success\<close> is
  true.
\<close>

theorem api_error_never_success:
  "(\<forall>e :: APIError.
      bool_of_literal_false (APIError.success e) = False
      \<and> e = \<lparr>APIError.success = APIError.success e,
              detail = (APIError.detail e :: string optional),
              code = (APIError.code e :: string optional)\<rparr>)
   \<and> (\<exists>a :: unit API. API.success a = True)"
proof -
  have f: "bool_of_literal_false x = False" for x
    using bool_of_literal_false [of x] by simp
  have ex: "\<exists>a :: unit API. API.success a = True"
    by (rule exI [of _ "\<lparr>API.success = True, detail = Absent, code = Absent, data = None\<rparr>"]) simp
  from f ex show ?thesis by simp
qed

subsection \<open>Authentication responses\<close>

text \<open>
  Claim C6. The sign-in and the sign-up response have the same structure: each is the
  record of a \<open>user\<close> (a \<open>User\<close>, the record of a number \<open>id\<close> and the strings \<open>name\<close> and
  \<open>email\<close>) and a string \<open>access_token\<close>, and a one-to-one correspondence that keeps both
  fields takes the values of one type onto the values of the other.
\<close>

theorem sign_in_sign_up_same_shape:
  "(\<forall>u :: User. u = \<lparr>User.id = (User.id u :: number), name = (User.name u :: string),
                         email = (User.email u :: string)\<rparr>)
   \<and> (\<forall>a :: APISignInResponse.
        a = \<lparr>APISignInResponse.user = (APISignInResponse.user a :: User),
             access_token = (APISignInResponse.access_token a :: string)\<rparr>)
   \<and> (\<forall>b :: APISignUpResponse.
        b = \<lparr>APISignUpResponse.user = (APISignUpResponse.user b :: User),
             access_token = (APISignUpResponse.access_token b :: string)\<rparr>)
   \<and> (\<exists>f :: APISignInResponse \<Rightarrow> APISignUpResponse.
        bij f \<and> (\<forall>a. APISignUpResponse.user (f a) = APISignInResponse.user a
                     \<and> APISignUpResponse.access_token (f a) = APISignInResponse.access_token a))"
proof -
  let ?f = "\<lambda>a :: APISignInResponse. \<lparr>APISignUpResponse.user = APISignInResponse.user a,
                  access_token = APISignInResponse.access_token a\<rparr>"
  let ?g = "\<lambda>b :: APISignUpResponse. \<lparr>APISignInResponse.user = APISignUpResponse.user b,
                  access_token = APISignUpResponse.access_token b\<rparr>"
  have "bij ?f"
    by (rule bij_betw_byWitness [where f' = ?g]) simp_all
  moreover have "\<forall>a. APISignUpResponse.user (?f a) = APISignInResponse.user a
                     \<and> APISignUpResponse.access_token (?f a) = APISignInResponse.access_token a"
    by simp
  ultimately have "\<exists>f :: APISignInResponse \<Rightarrow> APISignUpResponse.
        bij f \<and> (\<forall>a. APISignUpResponse.user (f a) = APISignInResponse.user a
                     \<and> APISignUpResponse.access_token (f a) = APISignInResponse.access_token a)"
    by blast
  then show ?thesis by simp
qed

subsection \<open>Creation payloads\<close>

text \<open>
  Claim C7. The order-creation payload is exactly the record of \<open>usuario_id\<close> (optional,
  a number or null), \<open>nf\<close> (a number), \<open>observacao\<close> (optional, a string or null),
  \<open>dtpedido\<close> (a string), \<open>latitude\<close> and \<open>longitude\<close> (numbers) and \<open>itens\<close>, a list of
  records of the numbers \<open>produto_id\<close> and \<open>quantidade\<close>; the route-creation payload is
  exactly the record of \<open>data_rota\<close> (a string), \<open>capacidade_max\<close> (a number), \<open>status\<close>
  (optional) and \<open>pedidos_ids\<close> (optional, a list of numbers).
\<close>

theorem create_payloads_shape:
  "(\<forall>p :: PedidoCreatePayload.
      p = \<lparr>PedidoCreatePayload.usuario_id = (PedidoCreatePayload.usuario_id p :: number option optional),
           nf = (PedidoCreatePayload.nf p :: number),
           observacao = (PedidoCreatePayload.observacao p :: string option optional),
           dtpedido = (PedidoCreatePayload.dtpedido p :: string),
           latitude = (PedidoCreatePayload.latitude p :: number),
           longitude = (PedidoCreatePayload.longitude p :: number),
           itens = (PedidoCreatePayload.itens p :: PedidoCreatePayload_itens list)\<rparr>)
   \<and> (\<forall>i :: PedidoCreatePayload_itens.
      i = \<lparr>PedidoCreatePayload_itens.produto_id = (PedidoCreatePayload_itens.produto_id i :: number),
           quantidade = (PedidoCreatePayload_itens.quantidade i :: number)\<rparr>)
   \<and> (\<forall>r :: RotaCreatePayload.
      r = \<lparr>RotaCreatePayload.data_rota = (RotaCreatePayload.data_rota r :: string),
           capacidade_max = (RotaCreatePayload.capacidade_max r :: number),
           status = (RotaCreatePayload.status r :: RotaStatus optional),
           pedidos_ids = (RotaCreatePayload.pedidos_ids r :: number list optional)\<rparr>)"
  by simp

subsection \<open>The reduced product\<close>

text \<open>
  Claim C8. A \<open>ProdutoSimple\<close> is exactly the record of the five fields \<open>id\<close>, \<open>nome\<close>,
  \<open>peso\<close>, \<open>volume\<close> and \<open>familia_nome\<close>, a string. The full \<open>Produto\<close> is the record of
  seven fields, and carries more: two products can agree on \<open>id\<close>, \<open>nome\<close>, \<open>peso\<close>,
  \<open>volume\<close> and the name of the family and differ in the nested \<open>familia\<close> record, in
  \<open>ativo\<close> and in \<open>created_at\<close>.
\<close>

theorem produto_simple_shape:
  "(\<forall>s :: ProdutoSimple.
      s = \<lparr>ProdutoSimple.id = (ProdutoSimple.id s :: number),
           nome = (ProdutoSimple.nome s :: string),
           peso = (ProdutoSimple.peso s :: number),
           volume = (ProdutoSimple.volume s :: number option),
           familia_nome = (ProdutoSimple.familia_nome s :: string)\<rparr>)
   \<and> (\<forall>p :: Produto.
      p = \<lparr>Produto.id = (Produto.id p :: number),
           nome = (Produto.nome p :: string),
           peso = (Produto.peso p :: number),
           volume = (Produto.volume p :: number option),
           familia = (Produto.familia p :: Produto_familia),
           ativo = (Produto.ativo p :: bool),
           created_at = (Produto.created_at p :: string)\<rparr>)
   \<and> (\<exists>(p :: Produto) (q :: Produto).
         Produto.id p = Produto.id q \<and> Produto.nome p = Produto.nome q
         \<and> Produto.peso p = Produto.peso q \<and> Produto.volume p = Produto.volume q
         \<and> Produto_familia.nome (Produto.familia p) = Produto_familia.nome (Produto.familia q)
         \<and> Produto.familia p \<noteq> Produto.familia q
         \<and> Produto.ativo p \<noteq> Produto.ativo q
         \<and> Produto.created_at p \<noteq> Produto.created_at q)"
proof -
  let ?p = "\<lparr>Produto.id = 1, nome = ''Caixa'', peso = 2, volume = None,
             familia = \<lparr>Produto_familia.id = 1, nome = ''Embalagens'', descricao = None\<rparr>,
             ativo = True, created_at = ''2025-01-01''\<rparr>"
  let ?q = "\<lparr>Produto.id = 1, nome = ''Caixa'', peso = 2, volume = None,
             familia = \<lparr>Produto_familia.id = 2, nome = ''Embalagens'', descricao = None\<rparr>,
             ativo = False, created_at = ''2025-01-02''\<rparr>"
  have "\<exists>(p :: Produto) (q :: Produto).
         Produto.id p = Produto.id q \<and> Produto.nome p = Produto.nome q
         \<and> Produto.peso p = Produto.peso q \<and> Produto.volume p = Produto.volume q
         \<and> Produto_familia.nome (Produto.familia p) = Produto_familia.nome (Produto.familia q)
         \<and> Produto.familia p \<noteq> Produto.familia q
         \<and> Produto.ativo p \<noteq> Produto.ativo q
         \<and> Produto.created_at p \<noteq> Produto.created_at q"
    by (rule exI [of _ ?p], rule exI [of _ ?q]) simp
  then show ?thesis by simp
qed

subsection \<open>Coordinates\<close>

text \<open>
  Claim C9. In \<open>Pedido\<close>, \<open>PedidoSimple\<close> and \<open>PedidoCreatePayload\<close> the fields \<open>latitude\<close>
  and \<open>longitude\<close> are numbers, neither optional nor nullable: each field gives a number
  for every value of the type, and its values over the type are all the numbers and
  nothing else, so no value of these types is an order without coordinates.
\<close>

theorem coordinates_required:
  "range (Pedido.latitude :: Pedido \<Rightarrow> number) = UNIV
   \<and> range (Pedido.longitude :: Pedido \<Rightarrow> number) = UNIV
   \<and> range (PedidoSimple.latitude :: PedidoSimple \<Rightarrow> number) = UNIV
   \<and> range (PedidoSimple.longitude :: PedidoSimple \<Rightarrow> number) = UNIV
   \<and> range (PedidoCreatePayload.latitude :: PedidoCreatePayload \<Rightarrow> number) = UNIV
   \<and> range (PedidoCreatePayload.longitude :: PedidoCreatePayload \<Rightarrow> number) = UNIV"
proof -
  have a: "range (Pedido.latitude :: Pedido \<Rightarrow> number) = UNIV"
  proof (rule range_eq_UNIV_I)
    fix x :: number
    show "\<exists>r :: Pedido. Pedido.latitude r = x"
      by (rule exI [of _ "\<lparr>Pedido.id = 0, usuario = None, nf = 0, observacao = None,
        dtpedido = [], latitude = x, longitude = 0, created_at = [], itens = [],
        peso_total = 0, volume_total = 0, total_itens = 0\<rparr>"]) simp
  qed
  have b: "range (Pedido.longitude :: Pedido \<Rightarrow> number) = UNIV"
  proof (rule range_eq_UNIV_I)
    fix x :: number
    show "\<exists>r :: Pedido. Pedido.longitude r = x"
      by (rule exI [of _ "\<lparr>Pedido.id = 0, usuario = None, nf = 0, observacao = None,
        dtpedido = [], latitude = 0, longitude = x, created_at = [], itens = [],
        peso_total = 0, volume_total = 0, total_itens = 0\<rparr>"]) simp
  qed
  have c: "range (PedidoSimple.latitude :: PedidoSimple \<Rightarrow> number) = UNIV"
  proof (rule range_eq_UNIV_I)
    fix x :: number
    show "\<exists>r :: PedidoSimple. PedidoSimple.latitude r = x"
      by (rule exI [of _ "\<lparr>PedidoSimple.id = 0, nf = 0, dtpedido = [], latitude = x,
        longitude = 0, usuario_nome = None, observacao = None\<rparr>"]) simp
  qed
  have d: "range (PedidoSimple.longitude :: PedidoSimple \<Rightarrow> number) = UNIV"
  proof (rule range_eq_UNIV_I)
    fix x :: number
    show "\<exists>r :: PedidoSimple. PedidoSimple.longitude r = x"
      by (rule exI [of _ "\<lparr>PedidoSimple.id = 0, nf = 0, dtpedido = [], latitude = 0,
        longitude = x, usuario_nome = None, observacao = None\<rparr>"]) simp
  qed
  have e: "range (PedidoCreatePayload.latitude :: PedidoCreatePayload \<Rightarrow> number) = UNIV"
  proof (rule range_eq_UNIV_I)
    fix x :: number
    show "\<exists>r :: PedidoCreatePayload. PedidoCreatePayload.latitude r = x"
      by (rule exI [of _ "\<lparr>PedidoCreatePayload.usuario_id = Absent, nf = 0,
        observacao = Absent, dtpedido = [], latitude = x, longitude = 0, itens = []\<rparr>"]) simp
  qed
  have f: "range (PedidoCreatePayload.longitude :: PedidoCreatePayload \<Rightarrow> number) = UNIV"
  proof (rule range_eq_UNIV_I)
    fix x :: number
    show "\<exists>r :: PedidoCreatePayload. PedidoCreatePayload.longitude r = x"
      by (rule exI [of _ "\<lparr>PedidoCreatePayload.usuario_id = Absent, nf = 0,
        observacao = Absent, dtpedido = [], latitude = 0, longitude = x, itens = []\<rparr>"]) simp
  qed
  from a b c d e f show ?thesis by simp
qed

subsection \<open>Status of a route to create\<close>

text \<open>
  Claim C10. Whenever the optional \<open>status\<close> of a route-creation payload is present, it is
  one of the three \<open>RotaStatus\<close> values \<open>PLANEJADA\<close>, \<open>EM_EXECUCAO\<close>, \<open>CONCLUIDA\<close>, a status
  that a stored \<open>Rota\<close> can have.
\<close>

theorem rota_create_status_enumerated:
  "RotaCreatePayload.status (p :: RotaCreatePayload) = Present s \<Longrightarrow>
     s \<in> {PLANEJADA, EM_EXECUCAO, CONCLUIDA}
     \<and> RotaStatus_literal s \<in> {''PLANEJADA'', ''EM_EXECUCAO'', ''CONCLUIDA''}
     \<and> (\<exists>r :: Rota. Rota.status r = s)"
proof -
  have "Rota.status \<lparr>Rota.id = 0, data_rota = [], capacidade_max = 0, status = s,
      created_at = [], updated_at = [], pedidos = [], trajetos = [], peso_total_pedidos = 0,
      total_pedidos = 0, pedidos_entregues = 0, percentual_entrega = 0\<rparr> = s" by simp
  then have "\<exists>r :: Rota. Rota.status r = s" by blast
  then show ?thesis by (cases s) simp_all
qed

text \<open>Claim C10 at a payload whose status is \<open>EM_EXECUCAO\<close>.\<close>

theorem rota_create_status_enumerated_witness:
  "RotaCreatePayload.status
     \<lparr>RotaCreatePayload.data_rota = ''2025-01-10'', capacidade_max = 100,
      status = Present EM_EXECUCAO, pedidos_ids = Present [1, 2]\<rparr> = Present EM_EXECUCAO
   \<and> RotaStatus_literal EM_EXECUCAO \<in> {''PLANEJADA'', ''EM_EXECUCAO'', ''CONCLUIDA''}
   \<and> (\<exists>r :: Rota. Rota.status r = EM_EXECUCAO)"
proof -
  have h: "RotaCreatePayload.status
     \<lparr>RotaCreatePayload.data_rota = ''2025-01-10'', capacidade_max = 100,
      status = Present EM_EXECUCAO, pedidos_ids = Present [1, 2]\<rparr> = Present EM_EXECUCAO"
    by simp
  from rota_create_status_enumerated [OF h] h show ?thesis by simp
qed

end
